theory Spec2Isabelle
  imports Main "HOL-Library.List_Lexorder" "HOL-Library.Multiset"
begin

section \<open>Python strings\<close>

text \<open>
  A Python \<^verbatim>\<open>str\<close> is a sequence of Unicode code points, so it is modelled as a list of
  naturals. The membership test, \<^verbatim>\<open>split\<close>, \<^verbatim>\<open>strip\<close> and the comparison of two
  strings all work on code points. ASCII literals of the sources are written with
  \<open>lit\<close>; the Japanese glyphs are written as their code points.
\<close>

type_synonym ustr = "nat list"

definition lit :: "string \<Rightarrow> ustr" where
  "lit s = map of_char s"

text \<open>The code points that \<^verbatim>\<open>str.strip()\<close> removes (those with \<^verbatim>\<open>str.isspace()\<close>).\<close>

definition isspace :: "nat \<Rightarrow> bool" where
  "isspace c =
     (c \<in> {0x09, 0x0A, 0x0B, 0x0C, 0x0D, 0x1C, 0x1D, 0x1E, 0x1F, 0x20, 0x85, 0xA0,
            0x1680, 0x2028, 0x2029, 0x202F, 0x205F, 0x3000}
      \<or> (0x2000 \<le> c \<and> c \<le> 0x200A))"

definition strip :: "ustr \<Rightarrow> ustr" where
  "strip s = rev (dropWhile isspace (rev (dropWhile isspace s)))"

fun starts_with :: "ustr \<Rightarrow> ustr \<Rightarrow> bool" where
  "starts_with [] s = True"
| "starts_with (x # xs) [] = False"
| "starts_with (x # xs) (y # ys) = (x = y \<and> starts_with xs ys)"

text \<open>\<open>contains sub s\<close> is Python's \<^verbatim>\<open>sub in s\<close> on two strings.\<close>

fun contains :: "ustr \<Rightarrow> ustr \<Rightarrow> bool" where
  "contains sub [] = (sub = [])"
| "contains sub (c # cs) = (starts_with sub (c # cs) \<or> contains sub cs)"

text \<open>\<open>join sep xs\<close> is \<^verbatim>\<open>sep.join(xs)\<close>.\<close>

fun join :: "ustr \<Rightarrow> ustr list \<Rightarrow> ustr" where
  "join sep [] = []"
| "join sep [x] = x"
| "join sep (x # y # ys) = x @ sep @ join sep (y # ys)"





text \<open>The glyphs the claims name.\<close>

definition g_e :: ustr where \<comment> \<open>katakana E, the airport limited express\<close>
  "g_e = [0x30A8]"

definition g_dash :: ustr where \<comment> \<open>fullwidth hyphen-minus, the pass-through placeholder\<close>
  "g_dash = [0xFF0D]"

definition g_track1 :: ustr where \<comment> \<open>circled digit one\<close>
  "g_track1 = [0x2460]"

definition g_track2 :: ustr where \<comment> \<open>circled digit two\<close>
  "g_track2 = [0x2461]"

definition g_dot :: ustr where \<comment> \<open>katakana middle dot, the separator of a direction\<close>
  "g_dot = [0x30FB]"

section \<open>The parse tree of BeautifulSoup\<close>

text \<open>
  \<^verbatim>\<open>timetable_converter.py\<close> and the Oshiage-direction branch converter read the page
  through BeautifulSoup. The parser is a library; the model starts from its parse tree.
  A tag has a name, the tokens of its \<^verbatim>\<open>class\<close> attribute (none when the attribute is
  absent) and its contents; a string is a leaf. A \<^verbatim>\<open>Tag\<close> is always truthy, so
  \<^verbatim>\<open>if elem:\<close> tests it against \<^verbatim>\<open>None\<close>.
\<close>

datatype node = Tag ustr "ustr list" "node list" | NavigableString ustr

fun descendants :: "node \<Rightarrow> node list" where
  "descendants (Tag nm cs kids) = concat (map (\<lambda>k. k # descendants k) kids)"
| "descendants (NavigableString s) = []"

text \<open>\<^verbatim>\<open>elem.text\<close>: the strings below the element, in document order.\<close>

fun get_text :: "node \<Rightarrow> ustr" where
  "get_text (Tag nm cs kids) = concat (map get_text kids)"
| "get_text (NavigableString s) = s"

text \<open>\<^verbatim>\<open>elem.get('class', [])\<close>.\<close>

fun tag_classes :: "node \<Rightarrow> ustr list" where
  "tag_classes (Tag nm cs kids) = cs"
| "tag_classes (NavigableString s) = []"

text \<open>
  \<^verbatim>\<open>class_='c'\<close> matches a tag when \<open>c\<close> is one of its class tokens, or when \<open>c\<close> is
  the whole attribute (the tokens joined by a space), which is how a value of two
  tokens such as \<^verbatim>\<open>'dayNavi__item is-active'\<close> matches.
\<close>

definition class_matches :: "ustr \<Rightarrow> ustr list \<Rightarrow> bool" where
  "class_matches c cs = (c \<in> set cs \<or> join (lit '' '') cs = c)"

fun matches :: "ustr \<Rightarrow> ustr option \<Rightarrow> node \<Rightarrow> bool" where
  "matches nm cls (Tag n cs kids) =
     (n = nm \<and> (case cls of None \<Rightarrow> True | Some c \<Rightarrow> class_matches c cs))"
| "matches nm cls (NavigableString s) = False"

definition bs_find_all :: "node \<Rightarrow> ustr \<Rightarrow> ustr option \<Rightarrow> node list" where
  "bs_find_all e nm cls = filter (matches nm cls) (descendants e)"

definition bs_find :: "node \<Rightarrow> ustr \<Rightarrow> ustr option \<Rightarrow> node option" where
  "bs_find e nm cls = (case bs_find_all e nm cls of [] \<Rightarrow> None | x # xs \<Rightarrow> Some x)"

section \<open>The data model\<close>

datatype py_error = AttributeError

record station_info =
  info_name :: ustr
  info_direction :: ustr
  info_day_type :: ustr

record trip =
  trip_minute :: ustr
  trip_train_type :: ustr
  trip_destination :: ustr
  trip_legends :: "ustr list"

text \<open>
  The timetable is a \<^verbatim>\<open>dict\<close> from the hour label to the trips of the hour. A dict keeps
  the order in which its keys were first set, and setting a key again replaces the
  value where it stands: an association list with \<open>dict_set\<close>.
\<close>

type_synonym timetable = "(ustr \<times> trip list) list"

fun dict_set :: "'k \<Rightarrow> 'v \<Rightarrow> ('k \<times> 'v) list \<Rightarrow> ('k \<times> 'v) list" where
  "dict_set k v [] = [(k, v)]"
| "dict_set k v (p # ps) = (if fst p = k then (k, v) # ps else p # dict_set k v ps)"

record legend_bundle =
  lg_train_types :: "ustr list"
  lg_destinations :: "ustr list"
  lg_connections :: "ustr list"

record parsed_data =
  pd_station :: station_info
  pd_timetable :: timetable
  pd_legends :: legend_bundle

section \<open>\<^verbatim>\<open>timetable_converter.py\<close>: the Keisei-style converter (Oshiage direction)\<close>

subsection \<open>Code tables (\<^verbatim>\<open>__init__\<close>)\<close>


definition destination_definitions_ks :: "(ustr \<times> ustr \<times> ustr) list" where
  "destination_definitions_ks =
    [(lit ''a'', [0x5370, 0x65DB, 0x65E5, 0x672C, 0x533B, 0x5927], [0x5370]),
     (lit ''b'', [0x829D, 0x5C71, 0x5343, 0x4EE3, 0x7530], [0x829D]),
     (lit ''c'', [0x5370, 0x897F, 0x7267, 0x306E, 0x539F], [0x7267]),
     (lit ''d'', [0x62BC, 0x4E0A], [0x62BC]),
     (lit ''e'', [0x4EAC, 0x6210, 0x9AD8, 0x7802], [0x9AD8]),
     (lit ''f'', [0x4EAC, 0x6210, 0x4F50, 0x5009], [0x4F50]),
     (lit ''g'', [0x4EAC, 0x6210, 0x6210, 0x7530], [0x6210]),
     (lit ''h'', [0x5B97, 0x543E, 0x53C2, 0x9053], [0x5B97]),
     (lit ''i'', [0x6210, 0x7530, 0x7A7A, 0x6E2F], [0x7A7A]),
     (lit ''j'', [0x9752, 0x7825], [0x9752])]"

definition destination_map_ks :: "(ustr \<times> ustr) list" where
  "destination_map_ks =
    [([0x5370, 0x65DB, 0x65E5, 0x672C, 0x533B, 0x5927], lit ''a''),
     ([0x533B], lit ''a''),
     ([0x829D, 0x5C71, 0x5343, 0x4EE3, 0x7530], lit ''b''),
     ([0x829D], lit ''b''),
     ([0x5370, 0x897F, 0x7267, 0x306E, 0x539F], lit ''c''),
     ([0x5370], lit ''c''),
     ([0x62BC, 0x4E0A], lit ''d''),
     ([0x62BC], lit ''d''),
     ([0x4EAC, 0x6210, 0x9AD8, 0x7802], lit ''e''),
     ([0x9AD8], lit ''e''),
     ([0x4EAC, 0x6210, 0x4F50, 0x5009], lit ''f''),
     ([0x4F50], lit ''f''),
     ([0x4EAC, 0x6210, 0x6210, 0x7530], lit ''g''),
     ([0x6210], lit ''g''),
     ([0x5B97, 0x543E, 0x53C2, 0x9053], lit ''h''),
     ([0x5B97], lit ''h''),
     ([0x6210, 0x7530, 0x7A7A, 0x6E2F], lit ''i''),
     ([0x7A7A], lit ''i''),
     ([0x9752, 0x7825], lit ''j''),
     ([0x9752], lit ''j''),
     ([0x6CC9, 0x5CB3, 0x5BFA], lit ''j''),
     ([0x25CF], lit ''j'')]"

subsection \<open>\<^verbatim>\<open>extract_station_info\<close>\<close>

text \<open>
  \<^verbatim>\<open>elem.find('a').text.strip()\<close>: \<^verbatim>\<open>find\<close> returns \<^verbatim>\<open>None\<close> when the element has no
  anchor below it, and reading \<^verbatim>\<open>.text\<close> of \<^verbatim>\<open>None\<close> raises \<^verbatim>\<open>AttributeError\<close>.
\<close>

definition anchor_text :: "node \<Rightarrow> py_error + ustr" where
  "anchor_text elem =
     (case bs_find elem (lit ''a'') None of
        None \<Rightarrow> Inl AttributeError
      | Some a \<Rightarrow> Inr (strip (get_text a)))"

definition day_type_of :: "ustr \<Rightarrow> station_info \<Rightarrow> station_info" where
  "day_type_of day_text info =
     (if contains [0x5E73, 0x65E5] day_text then info\<lparr>info_day_type := lit ''weekday''\<rparr>
      else if contains [0x571F, 0x66DC] day_text \<or> contains [0x4F11, 0x65E5] day_text
        then info\<lparr>info_day_type := lit ''holiday''\<rparr>
      else info)"

definition extract_station_info :: "node \<Rightarrow> py_error + station_info" where
  "extract_station_info soup =
     (let info0 = \<lparr>info_name = [], info_direction = [], info_day_type = []\<rparr>;
          info1 = (case bs_find soup (lit ''h1'') (Some (lit ''station-name'')) of
                     None \<Rightarrow> info0
                   | Some station_name_elem \<Rightarrow>
                       info0\<lparr>info_name := strip (get_text station_name_elem)\<rparr>)
      in case (case bs_find soup (lit ''li'') (Some (lit ''directionNavi__item is-active'')) of
                 None \<Rightarrow> Inr info1
               | Some direction_elem \<Rightarrow>
                   (case anchor_text direction_elem of
                      Inl err \<Rightarrow> Inl err
                    | Inr tx \<Rightarrow> Inr (info1\<lparr>info_direction := tx\<rparr>))) of
           Inl err \<Rightarrow> Inl err
         | Inr info2 \<Rightarrow>
             (case bs_find soup (lit ''li'') (Some (lit ''dayNavi__item is-active'')) of
                None \<Rightarrow> Inr info2
              | Some day_elem \<Rightarrow>
                  (case anchor_text day_elem of
                     Inl err \<Rightarrow> Inl err
                   | Inr day_text \<Rightarrow> Inr (day_type_of day_text info2))))"

subsection \<open>\<^verbatim>\<open>extract_timetable\<close>\<close>

text \<open>The texts of the spans of the block's \<^verbatim>\<open>wrapLegend\<close>, stripped, the empty ones left out.\<close>

definition block_legends :: "node \<Rightarrow> ustr list" where
  "block_legends wrap_time =
     (case bs_find wrap_time (lit ''div'') (Some (lit ''wrapLegend'')) of
        None \<Rightarrow> []
      | Some legend_elem \<Rightarrow>
          filter (\<lambda>tx. tx \<noteq> [])
            (map (\<lambda>span. strip (get_text span)) (bs_find_all legend_elem (lit ''span'') None)))"

text \<open>
  The loop over the legends that finds the destination: a train-type symbol is skipped
  (\<^verbatim>\<open>continue\<close>), the first legend that is a key of the destination map sets the
  destination and ends the loop (\<^verbatim>\<open>break\<close>). The same loop, with its own tables,
  stands in the branch converter.
\<close>

fun scan_destination :: "ustr list \<Rightarrow> (ustr \<times> ustr) list \<Rightarrow> ustr \<Rightarrow> ustr list \<Rightarrow> ustr" where
  "scan_destination syms dmap destination [] = destination"
| "scan_destination syms dmap destination (legend # rest) =
     (if legend \<in> set syms then scan_destination syms dmap destination rest
      else (case map_of dmap legend of
              Some code \<Rightarrow> code
            | None \<Rightarrow> scan_destination syms dmap destination rest))"

definition train_type_symbols_ks :: "ustr list" where
  "train_type_symbols_ks = [[0x30A2], [0x901F], [0x901A], [0x7279], [0x5FEB], [0x30A8]]"

definition train_type_ks :: "ustr list \<Rightarrow> ustr list \<Rightarrow> ustr \<Rightarrow> ustr" where
  "train_type_ks classes legends destination =
     (if g_e \<in> set legends then
        (if lit ''color-orange'' \<in> set classes \<and> destination = lit ''i'' then lit ''m''
         else lit ''l'')
      else if lit ''color-pink'' \<in> set classes then lit ''p''
      else if lit ''color-red'' \<in> set classes then lit ''q''
      else if lit ''color-orange'' \<in> set classes then lit ''k''
      else if lit ''color-green'' \<in> set classes then lit ''r''
      else if lit ''color-blue'' \<in> set classes then lit ''n''
      else lit ''o'')"

text \<open>
  The body of the loop over the trip blocks, on what it reads from the block: the class
  tokens, the legends and the text of the \<^verbatim>\<open>time\<close> span (\<open>None\<close> when the block has no
  such span). \<open>None\<close> is the block that adds no trip.
\<close>

definition classify_ks :: "ustr list \<Rightarrow> ustr list \<Rightarrow> ustr option \<Rightarrow> trip option" where
  "classify_ks classes legends time_elem =
     (let destination = scan_destination train_type_symbols_ks destination_map_ks (lit ''j'') legends;
          train_type = train_type_ks classes legends destination
      in case time_elem of
           None \<Rightarrow> None
         | Some tx \<Rightarrow>
             (let minute = strip tx
              in if minute = g_dash then None
                 else Some \<lparr>trip_minute = minute, trip_train_type = train_type,
                             trip_destination = destination, trip_legends = legends\<rparr>))"

definition time_text :: "node \<Rightarrow> ustr option" where
  "time_text wrap_time =
     map_option get_text (bs_find wrap_time (lit ''span'') (Some (lit ''time'')))"

definition wrap_time_ks :: "trip list \<Rightarrow> node \<Rightarrow> trip list" where
  "wrap_time_ks trips wrap_time =
     (case classify_ks (tag_classes wrap_time) (block_legends wrap_time) (time_text wrap_time) of
        None \<Rightarrow> trips
      | Some t \<Rightarrow> trips @ [t])"

definition row_ks :: "timetable \<Rightarrow> node \<Rightarrow> timetable" where
  "row_ks tt row =
     (case bs_find row (lit ''th'') None of
        None \<Rightarrow> tt
      | Some hour_elem \<Rightarrow>
          (case bs_find row (lit ''td'') None of
             None \<Rightarrow> tt
           | Some time_cell \<Rightarrow>
               (let trips = foldl wrap_time_ks []
                              (bs_find_all time_cell (lit ''div'') (Some (lit ''wrapTime'')))
                in if trips = [] then tt
                   else dict_set (strip (get_text hour_elem)) trips tt)))"

definition table_rows :: "node \<Rightarrow> node list" where
  "table_rows soup =
     (case bs_find soup (lit ''table'') (Some (lit ''tt-table'')) of
        None \<Rightarrow> []
      | Some table \<Rightarrow>
          (case bs_find table (lit ''tbody'') None of
             None \<Rightarrow> []
           | Some tbody \<Rightarrow> bs_find_all tbody (lit ''tr'') None))"

definition extract_timetable_ks :: "node \<Rightarrow> timetable" where
  "extract_timetable_ks soup = foldl row_ks [] (table_rows soup)"

subsection \<open>\<^verbatim>\<open>extract_legends\<close> and \<^verbatim>\<open>parse_html\<close>\<close>

definition legend_item :: "ustr \<Rightarrow> legend_bundle \<Rightarrow> node \<Rightarrow> legend_bundle" where
  "legend_item head_text lg item =
     (let tx = strip (get_text item)
      in if contains [0x7A2E, 0x5225] head_text then lg\<lparr>lg_train_types := lg_train_types lg @ [tx]\<rparr>
         else if contains [0x884C, 0x5148] head_text then lg\<lparr>lg_destinations := lg_destinations lg @ [tx]\<rparr>
         else if contains [0x63A5, 0x7D9A] head_text then lg\<lparr>lg_connections := lg_connections lg @ [tx]\<rparr>
         else lg)"

definition legend_section :: "legend_bundle \<Rightarrow> node \<Rightarrow> legend_bundle" where
  "legend_section lg section_elem =
     (case bs_find section_elem (lit ''dt'') (Some (lit ''time-legend__head'')) of
        None \<Rightarrow> lg
      | Some head \<Rightarrow>
          foldl (legend_item (strip (get_text head))) lg
            (bs_find_all section_elem (lit ''li'') None))"

definition extract_legends :: "node \<Rightarrow> legend_bundle" where
  "extract_legends soup =
     foldl legend_section \<lparr>lg_train_types = [], lg_destinations = [], lg_connections = []\<rparr>
       (bs_find_all soup (lit ''dl'') (Some (lit ''time-legend'')))"

definition parse_html_ks :: "node \<Rightarrow> py_error + parsed_data" where
  "parse_html_ks soup =
     (case extract_station_info soup of
        Inl err \<Rightarrow> Inl err
      | Inr info \<Rightarrow>
          Inr \<lparr>pd_station = info, pd_timetable = extract_timetable_ks soup,
                pd_legends = extract_legends soup\<rparr>)"

section \<open>The Nishimagome main-line converter (regular expressions)\<close>


definition destination_definitions_nm :: "(ustr \<times> ustr \<times> ustr) list" where
  "destination_definitions_nm =
    [(lit ''a'', [0x7FBD, 0x7530, 0x7A7A, 0x6E2F], [0x7FBD]),
     (lit ''b'', [0x4EAC, 0x6025, 0x4E45, 0x91CC, 0x6D5C], [0x30AF]),
     (lit ''c'', [0x4E09, 0x6D66, 0x6D77, 0x5CB8], [0x6D77]),
     (lit ''d'', [0x4E09, 0x5D0E, 0x53E3], [0x4E09]),
     (lit ''e'', [0x795E, 0x5948, 0x5DDD, 0x65B0, 0x753A], [0x795E]),
     (lit ''f'', [0x897F, 0x99AC, 0x8FBC, 0x0027], [0x99AC, 0x0027]),
     (lit ''g'', [0x897F, 0x99AC, 0x8FBC, 0x0027, 0x0027], [0x99AC, 0x0027, 0x0027]),
     (lit ''h'', [0x6CC9, 0x5CB3, 0x5BFA], [0x6CC9]),
     (lit ''i'', [0x6D45, 0x8349, 0x6A4B], [0x8349]),
     (lit ''j'', [0x54C1, 0x5DDD], [0x54C1]),
     (lit ''k'', [0x91D1, 0x6CA2, 0x6587, 0x5EAB], [0x6587]),
     (lit ''l'', [0x9017, 0x5B50, 0x30FB, 0x8449, 0x5C71], [0x9017])]"

definition destination_map_nm :: "(ustr \<times> ustr) list" where
  "destination_map_nm =
    [([0x7FBD, 0x7530, 0x7A7A, 0x6E2F], lit ''a''),
     ([0x7FBD], lit ''a''),
     ([0x4EAC, 0x6025, 0x4E45, 0x91CC, 0x6D5C], lit ''b''),
     ([0x4E45], lit ''b''),
     ([0x30AF], lit ''b''),
     ([0x4E09, 0x6D66, 0x6D77, 0x5CB8], lit ''c''),
     ([0x6D77], lit ''c''),
     ([0x4E09, 0x5D0E, 0x53E3], lit ''d''),
     ([0x4E09], lit ''d''),
     ([0x795E, 0x5948, 0x5DDD, 0x65B0, 0x753A], lit ''e''),
     ([0x795E], lit ''e''),
     ([0x65B0], lit ''e''),
     ([0x6CC9, 0x5CB3, 0x5BFA], lit ''h''),
     ([0x6CC9], lit ''h''),
     ([0x6D45, 0x8349, 0x6A4B], lit ''i''),
     ([0x8349], lit ''i''),
     ([0x6D45], lit ''i''),
     ([0x54C1, 0x5DDD], lit ''j''),
     ([0x54C1], lit ''j''),
     ([0x91D1, 0x6CA2, 0x6587, 0x5EAB], lit ''k''),
     ([0x6587], lit ''k''),
     ([0x9017, 0x5B50, 0x30FB, 0x8449, 0x5C71], lit ''l''),
     ([0x9017], lit ''l''),
     ([0x2460], lit ''f''),
     ([0x2461], lit ''g'')]"

type_synonym train_block = "ustr \<times> ustr list option \<times> ustr option"

definition train_type_symbols_nm :: "ustr list" where
  "train_type_symbols_nm = [[0x5FEB], [0x6025], [0x7279], [0x30A8]]"

text \<open>
  The loop over the legends has no \<^verbatim>\<open>break\<close>: its state is the pair of
  \<^verbatim>\<open>destination\<close> and \<^verbatim>\<open>platform\<close>, both \<^verbatim>\<open>None\<close> at the start, and every legend is
  looked at.
\<close>

fun scan_nm :: "ustr option \<times> ustr option \<Rightarrow> ustr list \<Rightarrow> ustr option \<times> ustr option" where
  "scan_nm st [] = st"
| "scan_nm (destination, platform) (legend # rest) =
     (if legend \<in> set train_type_symbols_nm then scan_nm (destination, platform) rest
      else if legend = g_track1 then scan_nm (destination, Some (lit ''f'')) rest
      else if legend = g_track2 then scan_nm (destination, Some (lit ''g'')) rest
      else (case map_of destination_map_nm legend of
              Some code \<Rightarrow> scan_nm (Some code, platform) rest
            | None \<Rightarrow> scan_nm (destination, platform) rest))"

text \<open>Here \<^verbatim>\<open>'color-green' in color_class\<close> is a substring test on the attribute's text.\<close>

definition train_type_nm :: "ustr \<Rightarrow> ustr list \<Rightarrow> ustr" where
  "train_type_nm color_class legends =
     (if g_e \<in> set legends then lit ''q''
      else if contains (lit ''color-green'') color_class then lit ''m''
      else if contains (lit ''color-blue'') color_class then lit ''n''
      else if contains (lit ''color-red'') color_class then lit ''p''
      else if contains (lit ''color-orange'') color_class then lit ''q''
      else lit ''o'')"

definition destination_nm :: "ustr list \<Rightarrow> ustr" where
  "destination_nm legends =
     (case scan_nm (None, None) legends of
        (Some destination, platform) \<Rightarrow> destination
      | (None, Some platform) \<Rightarrow> platform
      | (None, None) \<Rightarrow> lit ''f'')"

definition classify_nm :: "ustr \<Rightarrow> ustr list \<Rightarrow> ustr option \<Rightarrow> trip option" where
  "classify_nm color_class legends time_match =
     (let train_type = train_type_nm color_class legends;
          destination = destination_nm legends
      in case time_match of
           None \<Rightarrow> None
         | Some minute \<Rightarrow>
             if minute = g_dash then None
             else Some \<lparr>trip_minute = minute, trip_train_type = train_type,
                         trip_destination = destination, trip_legends = legends\<rparr>)"

fun block_nm :: "trip list \<Rightarrow> train_block \<Rightarrow> trip list" where
  "block_nm trips (color_class, legend_match, time_match) =
     (case classify_nm color_class (case legend_match of None \<Rightarrow> [] | Some spans \<Rightarrow> spans)
             time_match of
        None \<Rightarrow> trips
      | Some t \<Rightarrow> trips @ [t])"

fun row_nm :: "timetable \<Rightarrow> ustr \<times> train_block list \<Rightarrow> timetable" where
  "row_nm tt (hour, train_blocks) =
     (let trips = foldl block_nm [] train_blocks
      in if trips = [] then tt else dict_set hour trips tt)"

definition extract_timetable_nm :: "(ustr \<times> train_block list) list option \<Rightarrow> timetable" where
  "extract_timetable_nm tbody_rows =
     (case tbody_rows of None \<Rightarrow> [] | Some rows \<Rightarrow> foldl row_nm [] rows)"

section \<open>The Nishimagome branch converter (Oshiage direction)\<close>


definition destination_definitions_br :: "(ustr \<times> ustr \<times> ustr) list" where
  "destination_definitions_br =
    [(lit ''a'', [0x5370, 0x65DB, 0x65E5, 0x672C, 0x533B, 0x5927], [0x5370]),
     (lit ''b'', [0x829D, 0x5C71, 0x5343, 0x4EE3, 0x7530], [0x829D]),
     (lit ''c'', [0x5370, 0x897F, 0x7267, 0x306E, 0x539F], [0x7267]),
     (lit ''d'', [0x62BC, 0x4E0A], [0x62BC]),
     (lit ''e'', [0x4EAC, 0x6210, 0x9AD8, 0x7802], [0x9AD8]),
     (lit ''f'', [0x4EAC, 0x6210, 0x4F50, 0x5009], [0x4F50]),
     (lit ''g'', [0x4EAC, 0x6210, 0x6210, 0x7530], [0x6210]),
     (lit ''h'', [0x6210, 0x7530, 0x7A7A, 0x6E2F], [0x7A7A]),
     (lit ''i'', [0x9752, 0x7825], [0x9752]),
     (lit ''j'', [0x6CC9, 0x5CB3, 0x5BFA], [0x6CC9])]"

definition destination_map_br :: "(ustr \<times> ustr) list" where
  "destination_map_br =
    [([0x5370, 0x65DB, 0x65E5, 0x672C, 0x533B, 0x5927], lit ''a''),
     ([0x533B], lit ''a''),
     ([0x829D, 0x5C71, 0x5343, 0x4EE3, 0x7530], lit ''b''),
     ([0x829D], lit ''b''),
     ([0x5370, 0x897F, 0x7267, 0x306E, 0x539F], lit ''c''),
     ([0x5370], lit ''c''),
     ([0x62BC, 0x4E0A], lit ''d''),
     ([0x62BC], lit ''d''),
     ([0x4EAC, 0x6210, 0x9AD8, 0x7802], lit ''e''),
     ([0x9AD8], lit ''e''),
     ([0x4EAC, 0x6210, 0x4F50, 0x5009], lit ''f''),
     ([0x4F50], lit ''f''),
     ([0x4EAC, 0x6210, 0x6210, 0x7530], lit ''g''),
     ([0x6210], lit ''g''),
     ([0x6210, 0x7530, 0x7A7A, 0x6E2F], lit ''h''),
     ([0x7A7A], lit ''h''),
     ([0x9752, 0x7825], lit ''i''),
     ([0x9752], lit ''i''),
     ([0x6CC9, 0x5CB3, 0x5BFA], lit ''j''),
     ([0x25CF], lit ''j'')]"

definition train_type_symbols_br :: "ustr list" where
  "train_type_symbols_br = [[0x30A2], [0x901F], [0x7279], [0x5FEB]]"

definition train_type_br :: "ustr list \<Rightarrow> ustr" where
  "train_type_br classes =
     (if lit ''color-pink'' \<in> set classes then lit ''m''
      else if lit ''color-red'' \<in> set classes then lit ''n''
      else if lit ''color-orange'' \<in> set classes then lit ''k''
      else if lit ''color-green'' \<in> set classes then lit ''o''
      else lit ''l'')"

text \<open>
  The destination loop stands under \<^verbatim>\<open>if legend_elem:\<close>; without the element the
  legends are empty and the loop over them changes nothing.
\<close>

definition classify_br :: "ustr list \<Rightarrow> ustr list \<Rightarrow> ustr option \<Rightarrow> trip option" where
  "classify_br classes legends time_elem =
     (let train_type = train_type_br classes;
          destination = scan_destination train_type_symbols_br destination_map_br (lit ''j'') legends
      in case time_elem of
           None \<Rightarrow> None
         | Some tx \<Rightarrow>
             Some \<lparr>trip_minute = strip tx, trip_train_type = train_type,
                   trip_destination = destination, trip_legends = legends\<rparr>)"

definition wrap_time_br :: "trip list \<Rightarrow> node \<Rightarrow> trip list" where
  "wrap_time_br trips wrap_time =
     (case classify_br (tag_classes wrap_time) (block_legends wrap_time) (time_text wrap_time) of
        None \<Rightarrow> trips
      | Some t \<Rightarrow> trips @ [t])"

definition row_br :: "timetable \<Rightarrow> node \<Rightarrow> timetable" where
  "row_br tt row =
     (case bs_find row (lit ''th'') None of
        None \<Rightarrow> tt
      | Some hour_elem \<Rightarrow>
          (case bs_find row (lit ''td'') None of
             None \<Rightarrow> tt
           | Some time_cell \<Rightarrow>
               (let trips = foldl wrap_time_br []
                              (bs_find_all time_cell (lit ''div'') (Some (lit ''wrapTime'')))
                in if trips = [] then tt
                   else dict_set (strip (get_text hour_elem)) trips tt)))"

definition extract_timetable_br :: "node \<Rightarrow> timetable" where
  "extract_timetable_br soup = foldl row_br [] (table_rows soup)"

section \<open>\<^verbatim>\<open>convert_to_nexttrain\<close>\<close>









section \<open>The rules of the specification\<close>

text \<open>
  The definitions of this section follow the words of the specification; the theorems
  compare them with the code.
\<close>

text \<open>
  Destination resolution as the specification words it: among the legends, in order,
  the first eligible glyph that is a key of the destination map gives the code.
\<close>

definition first_code :: "(ustr \<Rightarrow> bool) \<Rightarrow> (ustr \<times> ustr) list \<Rightarrow> ustr list \<Rightarrow> ustr option" where
  "first_code eligible dmap legends =
     (case filter (\<lambda>l. eligible l \<and> map_of dmap l \<noteq> None) legends of
        [] \<Rightarrow> None
      | l # rest \<Rightarrow> map_of dmap l)"

definition first_match :: "ustr list \<Rightarrow> (ustr \<times> ustr) list \<Rightarrow> ustr \<Rightarrow> ustr list \<Rightarrow> ustr" where
  "first_match syms dmap dflt legends =
     (case first_code (\<lambda>l. l \<notin> set syms) dmap legends of None \<Rightarrow> dflt | Some code \<Rightarrow> code)"

text \<open>
  In the Nishimagome main-line converter a track glyph is a circled digit; a
  destination-name glyph is a legend that is neither a train-type symbol nor a track
  glyph.
\<close>

definition is_track :: "ustr \<Rightarrow> bool" where
  "is_track l = (l = g_track1 \<or> l = g_track2)"

definition is_name_nm :: "ustr \<Rightarrow> bool" where
  "is_name_nm l = (l \<notin> set train_type_symbols_nm \<and> l \<noteq> g_track1 \<and> l \<noteq> g_track2)"

definition name_glyphs :: "ustr list \<Rightarrow> ustr list" where
  "name_glyphs legends =
     filter (\<lambda>l. is_name_nm l \<and> map_of destination_map_nm l \<noteq> None) legends"

definition track_glyphs :: "ustr list \<Rightarrow> ustr list" where
  "track_glyphs legends = filter is_track legends"
















section \<open>A sample page\<close>

text \<open>
  A small parse tree in the shape the converters expect, for the concrete instances of
  the theorems: the station header, and a timetable of two rows. The row of hour 5 holds
  an airport limited express to Narita Airport at minute 15, a block whose time text is
  the placeholder, and a block with a legend and a colour but no \<^verbatim>\<open>time\<close> span; the
  row of hour 6 holds a placeholder block only.
\<close>

definition sample_block :: "ustr list \<Rightarrow> ustr list \<Rightarrow> ustr option \<Rightarrow> node" where
  "sample_block colors legends time_span =
     Tag (lit ''div'') (lit ''wrapTime'' # colors)
       (Tag (lit ''div'') [lit ''wrapLegend'']
          (map (\<lambda>l. Tag (lit ''span'') [] [NavigableString l]) legends)
        # (case time_span of
             None \<Rightarrow> []
           | Some tx \<Rightarrow> [Tag (lit ''span'') [lit ''time''] [NavigableString tx]]))"

definition sample_row :: "ustr \<Rightarrow> node list \<Rightarrow> node" where
  "sample_row hour blocks =
     Tag (lit ''tr'') []
       [Tag (lit ''th'') [] [NavigableString hour], Tag (lit ''td'') [] blocks]"

definition no_time_block :: node where
  "no_time_block = sample_block [lit ''color-red''] [[0x62BC]] None"

definition sample_rows :: "node list" where
  "sample_rows =
     [sample_row (lit '' 5 '')
        [sample_block [lit ''color-orange''] [g_e, [0x7A7A]] (Some (lit ''15'')),
         sample_block [] [] (Some g_dash),
         no_time_block],
      sample_row (lit ''6'') [sample_block [] [] (Some g_dash)]]"

definition sample_soup :: node where
  "sample_soup =
     Tag (lit ''[document]'') []
       [Tag (lit ''h1'') [lit ''station-name''] [NavigableString [0x6D45, 0x8349]],
        Tag (lit ''li'') [lit ''directionNavi__item'', lit ''is-active'']
          [Tag (lit ''a'') []
             [NavigableString [0x62BC, 0x4E0A, 0x30FB, 0x4EAC, 0x6210, 0x7DDA, 0x30FB, 0x5317, 0x7DCF, 0x7DDA]]],
        Tag (lit ''li'') [lit ''dayNavi__item'', lit ''is-active'']
          [Tag (lit ''a'') [] [NavigableString [0x5E73, 0x65E5]]],
        Tag (lit ''table'') [lit ''tt-table''] [Tag (lit ''tbody'') [] sample_rows]]"

text \<open>
  The same page with the active direction tab holding its text directly, without an
  anchor: \<^verbatim>\<open><li class="directionNavi__item is-active">...</li>\<close>.
\<close>

definition no_anchor_soup :: node where
  "no_anchor_soup =
     Tag (lit ''[document]'') []
       [Tag (lit ''h1'') [lit ''station-name''] [NavigableString [0x6D45, 0x8349]],
        Tag (lit ''li'') [lit ''directionNavi__item'', lit ''is-active'']
          [NavigableString [0x62BC, 0x4E0A]],
        Tag (lit ''table'') [lit ''tt-table''] [Tag (lit ''tbody'') [] sample_rows]]"




section \<open>Trip classification\<close>

lemma classify_ks_Some:
  assumes "classify_ks classes legends time_elem = Some t"
  shows "trip_destination t =
           scan_destination train_type_symbols_ks destination_map_ks (lit ''j'') legends"
    and "trip_train_type t = train_type_ks classes legends (trip_destination t)"
    and "trip_legends t = legends"
    and "\<exists>tx. time_elem = Some tx \<and> trip_minute t = strip tx \<and> strip tx \<noteq> g_dash"
  using assms
  by (auto simp: classify_ks_def Let_def split: option.splits if_splits)

text \<open>
  C1. In the Keisei-style converter, a trip block whose legends contain the airport
  limited express glyph gets train type \<open>m\<close> exactly when \<open>color-orange\<close> is one of its
  class tokens and its destination, resolved by the scan of the legends, is \<open>i\<close>; in
  every other case it gets \<open>l\<close>, whatever the other colour tokens are.
\<close>

theorem airport_express_type_ks:
  assumes "g_e \<in> set legends"
    and "classify_ks classes legends time_elem = Some t"
  shows "trip_destination t =
           scan_destination train_type_symbols_ks destination_map_ks (lit ''j'') legends
         \<and> trip_train_type t =
             (if lit ''color-orange'' \<in> set classes \<and> trip_destination t = lit ''i''
              then lit ''m'' else lit ''l'')"
  using assms classify_ks_Some(1,2) [OF assms(2)]
  by (simp add: train_type_ks_def)

theorem airport_express_type_ks_witness:
  "g_e \<in> set [g_e, [0x7A7A]]
   \<and> classify_ks [lit ''wrapTime'', lit ''color-orange''] [g_e, [0x7A7A]] (Some (lit ''15''))
       = Some \<lparr>trip_minute = lit ''15'', trip_train_type = lit ''m'',
               trip_destination = lit ''i'', trip_legends = [g_e, [0x7A7A]]\<rparr>
   \<and> classify_ks [lit ''wrapTime'', lit ''color-green''] [g_e, [0x7A7A]] (Some (lit ''15''))
       = Some \<lparr>trip_minute = lit ''15'', trip_train_type = lit ''l'',
               trip_destination = lit ''i'', trip_legends = [g_e, [0x7A7A]]\<rparr>"
proof -
  have m: "g_e \<in> set [g_e, [0x7A7A]]" by simp
  obtain t where t: "classify_ks [lit ''wrapTime'', lit ''color-orange''] [g_e, [0x7A7A]]
      (Some (lit ''15'')) = Some t"
    and mi: "trip_minute t = lit ''15''" and le: "trip_legends t = [g_e, [0x7A7A]]"
    by (simp add: classify_ks_def Let_def strip_def isspace_def g_dash_def lit_def)
  obtain u where u: "classify_ks [lit ''wrapTime'', lit ''color-green''] [g_e, [0x7A7A]]
      (Some (lit ''15'')) = Some u"
    and mi': "trip_minute u = lit ''15''" and le': "trip_legends u = [g_e, [0x7A7A]]"
    by (simp add: classify_ks_def Let_def strip_def isspace_def g_dash_def lit_def)
  have d: "scan_destination train_type_symbols_ks destination_map_ks (lit ''j'') [g_e, [0x7A7A]]
      = lit ''i''"
    by (simp add: train_type_symbols_ks_def destination_map_ks_def g_e_def)
  have "t = \<lparr>trip_minute = lit ''15'', trip_train_type = lit ''m'',
              trip_destination = lit ''i'', trip_legends = [g_e, [0x7A7A]]\<rparr>"
    using airport_express_type_ks [OF m t] mi le d by (cases t) (simp add: lit_def)
  moreover have "u = \<lparr>trip_minute = lit ''15'', trip_train_type = lit ''l'',
              trip_destination = lit ''i'', trip_legends = [g_e, [0x7A7A]]\<rparr>"
    using airport_express_type_ks [OF m u] mi' le' d by (cases u) (simp add: lit_def)
  ultimately show ?thesis using m t u by simp
qed

lemma classify_br_Some:
  assumes "classify_br classes legends time_elem = Some t"
  shows "trip_destination t =
           scan_destination train_type_symbols_br destination_map_br (lit ''j'') legends"
    and "trip_train_type t = train_type_br classes"
    and "\<exists>tx. time_elem = Some tx \<and> trip_minute t = strip tx"
  using assms
  by (auto simp: classify_br_def Let_def split: option.splits)

lemma classify_nm_Some:
  assumes "classify_nm color_class legends time_match = Some t"
  shows "trip_destination t = destination_nm legends"
    and "trip_train_type t = train_type_nm color_class legends"
    and "time_match = Some (trip_minute t)" and "trip_minute t \<noteq> g_dash"
  using assms
  by (auto simp: classify_nm_def Let_def split: option.splits if_splits)

lemmas table_defs =
  train_type_symbols_ks_def destination_map_ks_def
  train_type_symbols_nm_def destination_map_nm_def
  train_type_symbols_br_def destination_map_br_def

lemmas glyph_defs = g_e_def g_dash_def g_track1_def g_track2_def g_dot_def

lemmas classify_defs =
  classify_ks_def classify_nm_def classify_br_def train_type_ks_def train_type_nm_def
  train_type_br_def destination_nm_def Let_def strip_def isspace_def

subsection \<open>The scan of the legends\<close>

lemma scan_destination_first_match:
  "scan_destination syms dmap d ls = first_match syms dmap d ls"
  by (induction ls) (auto simp: first_match_def first_code_def split: option.splits)

lemma first_code_Nil: "first_code P dmap [] = None"
  by (simp add: first_code_def)

lemma first_code_Cons:
  "first_code P dmap (x # xs) =
     (if P x \<and> map_of dmap x \<noteq> None then map_of dmap x else first_code P dmap xs)"
  by (auto simp: first_code_def)

lemma first_code_snoc:
  "first_code P dmap (xs @ [l]) =
     (case first_code P dmap xs of
        Some c \<Rightarrow> Some c
      | None \<Rightarrow> if P l then map_of dmap l else None)"
  by (induction xs) (auto simp: first_code_Nil first_code_Cons split: option.splits)

lemma track_facts:
  "g_track1 \<notin> set train_type_symbols_nm" "g_track2 \<notin> set train_type_symbols_nm"
  "map_of destination_map_nm g_track1 = Some (lit ''f'')"
  "map_of destination_map_nm g_track2 = Some (lit ''g'')"
  "g_track1 \<noteq> g_track2"
  by (simp_all add: g_track1_def g_track2_def train_type_symbols_nm_def destination_map_nm_def)

lemma scan_nm_rev:
  "scan_nm (d, p) ls =
     (case first_code is_name_nm destination_map_nm (rev ls) of Some c \<Rightarrow> Some c | None \<Rightarrow> d,
      case first_code is_track destination_map_nm (rev ls) of Some c \<Rightarrow> Some c | None \<Rightarrow> p)"
proof (induction ls arbitrary: d p)
  case Nil
  show ?case by (simp add: first_code_def)
next
  case (Cons l rest)
  show ?case
    using track_facts
    by (auto simp: Cons.IH first_code_snoc is_name_nm_def is_track_def
        split: option.splits)
qed

lemma destination_nm_eq:
  "destination_nm ls =
     (case first_code is_name_nm destination_map_nm (rev ls) of
        Some c \<Rightarrow> c
      | None \<Rightarrow> (case first_code is_track destination_map_nm (rev ls) of
                   Some pl \<Rightarrow> pl
                 | None \<Rightarrow> lit ''f''))"
  by (simp add: destination_nm_def scan_nm_rev split: option.splits)

lemma first_code_rev:
  "first_code P dmap (rev ls) =
     (if filter (\<lambda>l. P l \<and> map_of dmap l \<noteq> None) ls = [] then None
      else map_of dmap (last (filter (\<lambda>l. P l \<and> map_of dmap l \<noteq> None) ls)))"
proof (induction ls)
  case Nil
  show ?case by (simp add: first_code_Nil)
next
  case (Cons a ls)
  let ?Q = "\<lambda>l. P l \<and> map_of dmap l \<noteq> None"
  have "filter ?Q ls \<noteq> [] \<Longrightarrow> map_of dmap (last (filter ?Q ls)) \<noteq> None"
    using last_in_set [of "filter ?Q ls"] by auto
  then show ?case
    using Cons.IH by (auto simp: first_code_snoc split: option.splits)
qed

text \<open>
  C2, as amended. In the Keisei-style converter and in the branch converter the
  destination is the code of the first legend, in document order, that is no train-type
  symbol and is a key of the destination map, and \<open>j\<close>, the default, when there is none.
  In the Nishimagome main-line converter the scan does not stop at a match: the
  destination is the code of the last destination-name glyph; without one, the code of
  the last track glyph; without either, the default \<open>f\<close>.
\<close>

theorem destination_resolution:
  "(classify_ks classes legends time_elem = Some t \<longrightarrow>
      trip_destination t = first_match train_type_symbols_ks destination_map_ks (lit ''j'') legends)
   \<and> (classify_br classes legends time_elem = Some t \<longrightarrow>
      trip_destination t = first_match train_type_symbols_br destination_map_br (lit ''j'') legends)
   \<and> (classify_nm color_class legends time_elem = Some t \<longrightarrow>
      trip_destination t =
        (case first_code is_name_nm destination_map_nm (rev legends) of
           Some code \<Rightarrow> code
         | None \<Rightarrow> (case first_code is_track destination_map_nm (rev legends) of
                      Some platform \<Rightarrow> platform
                    | None \<Rightarrow> lit ''f'')))"
  using classify_ks_Some(1) [of classes legends time_elem t]
    classify_br_Some(1) [of classes legends time_elem t]
    classify_nm_Some(1) [of color_class legends time_elem t]
  by (simp add: scan_destination_first_match destination_nm_eq)

theorem destination_resolution_witness:
  "map_option trip_destination
     (classify_ks [lit ''wrapTime'', lit ''color-green''] [[0x5FEB], [0x62BC], [0x7A7A]]
        (Some (lit ''07''))) = Some (lit ''d'')
   \<and> map_option trip_destination
     (classify_br [lit ''wrapTime''] [[0x5FEB], [0x62BC], [0x7A7A]] (Some (lit ''07'')))
       = Some (lit ''d'')
   \<and> map_option trip_destination
     (classify_nm (lit ''wrapTime'') [[0x7FBD], [0x54C1]] (Some (lit ''05''))) = Some (lit ''j'')"
proof -
  let ?ls = "[[0x5FEB], [0x62BC], [0x7A7A]] :: ustr list"
  obtain t where t: "classify_ks [lit ''wrapTime'', lit ''color-green''] ?ls (Some (lit ''07'')) = Some t"
    by (simp add: classify_defs glyph_defs lit_def)
  obtain u where u: "classify_br [lit ''wrapTime''] ?ls (Some (lit ''07'')) = Some u"
    by (simp add: classify_defs glyph_defs lit_def)
  obtain v where v: "classify_nm (lit ''wrapTime'') [[0x7FBD], [0x54C1]] (Some (lit ''05'')) = Some v"
    by (simp add: classify_defs glyph_defs lit_def)
  have "trip_destination t = lit ''d''"
    using destination_resolution [of "[lit ''wrapTime'', lit ''color-green'']" ?ls "Some (lit ''07'')" t] t
    by (simp add: first_match_def first_code_def table_defs)
  moreover have "trip_destination u = lit ''d''"
    using destination_resolution [of "[lit ''wrapTime'']" ?ls "Some (lit ''07'')" u] u
    by (simp add: first_match_def first_code_def table_defs)
  moreover have "trip_destination v = lit ''j''"
    using destination_resolution [of _ "[[0x7FBD], [0x54C1]]" "Some (lit ''05'')" v "lit ''wrapTime''"] v
    by (simp add: first_code_def table_defs is_name_nm_def is_track_def glyph_defs)
  ultimately show ?thesis using t u v by simp
qed

text \<open>
  C2 as the claim words it fails on the Nishimagome main-line converter. With the
  legends of Haneda Airport and Shinagawa, in that order, the first match is \<open>a\<close> and
  the converter gives \<open>j\<close>; with the circled one before the glyph of Haneda Airport
  the first key of the destination map is the track glyph, with code \<open>f\<close>, and the
  converter gives \<open>a\<close>.
\<close>

theorem first_match_nm_counterexample:
  "map_option trip_destination
     (classify_nm (lit ''wrapTime'') [[0x7FBD], [0x54C1]] (Some (lit ''05''))) = Some (lit ''j'')
   \<and> first_match train_type_symbols_nm destination_map_nm (lit ''f'') [[0x7FBD], [0x54C1]]
       = lit ''a''
   \<and> lit ''j'' \<noteq> lit ''a''
   \<and> map_option trip_destination
       (classify_nm (lit ''wrapTime'') [g_track1, [0x7FBD]] (Some (lit ''05''))) = Some (lit ''a'')
   \<and> first_match train_type_symbols_nm destination_map_nm (lit ''f'') [g_track1, [0x7FBD]]
       = lit ''f''
   \<and> lit ''a'' \<noteq> lit ''f''"
  by (simp add: classify_defs table_defs glyph_defs first_match_def first_code_def lit_def)

text \<open>
  C3, as amended. In the Nishimagome main-line converter a track glyph gives the
  destination only when the legends hold no destination-name glyph: then the
  destination is the code of the last track glyph, \<open>f\<close> for the circled one and \<open>g\<close> for
  the circled two. When a destination-name glyph appears, the destination is the code
  of the last such glyph, whether or not a track glyph appears too.
\<close>

theorem track_glyph_fallback:
  assumes "classify_nm color_class legends time_match = Some t"
  shows "(name_glyphs legends = [] \<and> track_glyphs legends \<noteq> [] \<longrightarrow>
            trip_destination t =
              (if last (track_glyphs legends) = g_track1 then lit ''f'' else lit ''g''))
         \<and> (name_glyphs legends \<noteq> [] \<longrightarrow>
            map_of destination_map_nm (last (name_glyphs legends)) = Some (trip_destination t))"
proof -
  let ?N = "\<lambda>l. is_name_nm l \<and> map_of destination_map_nm l \<noteq> None"
  let ?T = "\<lambda>l. is_track l \<and> map_of destination_map_nm l \<noteq> None"
  have T: "filter ?T legends = track_glyphs legends"
    unfolding track_glyphs_def
    by (rule filter_cong) (auto simp: is_track_def track_facts)
  have d: "trip_destination t = destination_nm legends"
    using classify_nm_Some(1) [OF assms] .
  have tr: "track_glyphs legends \<noteq> [] \<Longrightarrow> is_track (last (track_glyphs legends))"
    using last_in_set [of "track_glyphs legends"] by (auto simp: track_glyphs_def)
  have nm: "name_glyphs legends \<noteq> [] \<Longrightarrow>
      \<exists>c. map_of destination_map_nm (last (name_glyphs legends)) = Some c"
    using last_in_set [of "name_glyphs legends"] by (auto simp: name_glyphs_def)
  have N: "first_code is_name_nm destination_map_nm (rev legends) =
      (if name_glyphs legends = [] then None
       else map_of destination_map_nm (last (name_glyphs legends)))"
    by (simp only: first_code_rev name_glyphs_def)
  have K: "first_code is_track destination_map_nm (rev legends) =
      (if track_glyphs legends = [] then None
       else map_of destination_map_nm (last (track_glyphs legends)))"
    by (simp only: first_code_rev T)
  show ?thesis
  proof (intro conjI impI)
    assume a: "name_glyphs legends = [] \<and> track_glyphs legends \<noteq> []"
    then have "is_track (last (track_glyphs legends))" using tr by simp
    then show "trip_destination t =
        (if last (track_glyphs legends) = g_track1 then lit ''f'' else lit ''g'')"
      using a by (auto simp: d destination_nm_eq N K is_track_def track_facts)
  next
    assume a: "name_glyphs legends \<noteq> []"
    then obtain c where "map_of destination_map_nm (last (name_glyphs legends)) = Some c"
      using nm by blast
    then show "map_of destination_map_nm (last (name_glyphs legends)) = Some (trip_destination t)"
      using a by (simp add: d destination_nm_eq N)
  qed
qed

theorem track_glyph_fallback_witness:
  "map_option trip_destination
     (classify_nm (lit ''wrapTime'') [[0x5FEB], g_track2] (Some (lit ''05''))) = Some (lit ''g'')
   \<and> map_option trip_destination
     (classify_nm (lit ''wrapTime'') [g_track1, [0x7FBD]] (Some (lit ''05''))) = Some (lit ''a'')"
proof -
  obtain t where t: "classify_nm (lit ''wrapTime'') [[0x5FEB], g_track2] (Some (lit ''05'')) = Some t"
    by (simp add: classify_defs glyph_defs lit_def)
  obtain u where u: "classify_nm (lit ''wrapTime'') [g_track1, [0x7FBD]] (Some (lit ''05'')) = Some u"
    by (simp add: classify_defs glyph_defs lit_def)
  have "trip_destination t = lit ''g''"
    using track_glyph_fallback [OF t]
    by (simp add: name_glyphs_def track_glyphs_def is_name_nm_def is_track_def table_defs glyph_defs)
  moreover have "trip_destination u = lit ''a''"
    using track_glyph_fallback [OF u]
    by (simp add: name_glyphs_def track_glyphs_def is_name_nm_def is_track_def table_defs glyph_defs)
  ultimately show ?thesis using t u by simp
qed

text \<open>
  C3 as the claim words it fails: with the circled one followed by the glyph of Haneda
  Airport the destination is \<open>a\<close>, the code of the name glyph, and not \<open>f\<close>.
\<close>

theorem track_priority_counterexample:
  "g_track1 \<in> set [g_track1, [0x7FBD]]
   \<and> map_option trip_destination
       (classify_nm (lit ''wrapTime'') [g_track1, [0x7FBD]] (Some (lit ''05''))) = Some (lit ''a'')
   \<and> lit ''a'' \<noteq> lit ''f''"
  by (simp add: classify_defs table_defs glyph_defs lit_def)


section \<open>The sample page, evaluated\<close>

lemma lit_eq_iff: "lit a = lit b \<longleftrightarrow> a = b"
  by (simp add: lit_def inj_map_eq_map [OF inj_of_char])

lemma lit_append: "lit a @ lit b = lit (a @ b)"
  by (simp add: lit_def)

lemma lit_eq_Nil: "lit a = [] \<longleftrightarrow> a = []" "[] = lit a \<longleftrightarrow> a = []"
  by (auto simp: lit_def)

lemmas lit_simps = lit_eq_iff lit_append lit_eq_Nil

lemmas bs_defs = bs_find_def bs_find_all_def class_matches_def time_text_def block_legends_def

lemmas sample_defs = sample_rows_def sample_row_def sample_block_def no_time_block_def








section \<open>Invariants of the extraction loops\<close>

lemma foldl_invariant:
  assumes "P a" and "\<And>acc x. P acc \<Longrightarrow> P (f acc x)"
  shows "P (foldl f a xs)"
  using assms(1) by (induction xs arbitrary: a) (auto intro: assms(2))

lemma dict_set_subset: "set (dict_set k v ps) \<subseteq> insert (k, v) (set ps)"
  by (induction ps) auto

lemma dict_set_keys: "distinct (map fst ps) \<Longrightarrow> distinct (map fst (dict_set k v ps))"
proof (induction ps)
  case Nil
  show ?case by simp
next
  case (Cons p ps)
  have "fst ` set (dict_set k v ps) \<subseteq> insert k (fst ` set ps)"
    using dict_set_subset [of k v ps] by auto
  with Cons show ?case by auto
qed












lemma timetable_keys_distinct:
  "distinct (map fst (extract_timetable_ks soup))"
  "distinct (map fst (extract_timetable_nm tbody_rows))"
  "distinct (map fst (extract_timetable_br soup))"
proof -
  show "distinct (map fst (extract_timetable_ks soup))"
    unfolding extract_timetable_ks_def
    by (rule foldl_invariant)
      (auto simp: row_ks_def Let_def dict_set_keys split: option.splits)
  show "distinct (map fst (extract_timetable_br soup))"
    unfolding extract_timetable_br_def
    by (rule foldl_invariant)
      (auto simp: row_br_def Let_def dict_set_keys split: option.splits)
  have "distinct (map fst (foldl row_nm [] rows))" for rows
    by (rule foldl_invariant) (auto simp: Let_def dict_set_keys)
  then show "distinct (map fst (extract_timetable_nm tbody_rows))"
    by (cases tbody_rows) (simp_all add: extract_timetable_nm_def)
qed

section \<open>Placeholder blocks, blocks without a time, and the hours that are registered\<close>



text \<open>
  C10. In every converter a trip block without a \<^verbatim>\<open>time\<close> span adds no trip to the hour,
  whatever its legends and colour tokens are.
\<close>

theorem no_time_element_dropped:
  "(time_text wrap_time = None \<longrightarrow>
      wrap_time_ks trips wrap_time = trips \<and> wrap_time_br trips wrap_time = trips)
   \<and> block_nm trips (color_class, legend_match, None) = trips"
  by (simp add: wrap_time_ks_def wrap_time_br_def classify_ks_def classify_br_def
      classify_nm_def Let_def)

theorem no_time_element_dropped_witness:
  "time_text no_time_block = None
   \<and> tag_classes no_time_block = [lit ''wrapTime'', lit ''color-red'']
   \<and> block_legends no_time_block = [[0x62BC]]
   \<and> wrap_time_ks [] no_time_block = []
   \<and> wrap_time_br [] no_time_block = []"
proof -
  have t: "time_text no_time_block = None"
    by (simp add: bs_defs sample_defs lit_simps)
  have l: "block_legends no_time_block = [[0x62BC]]"
    by (simp add: bs_defs sample_defs lit_simps strip_def isspace_def)
  show ?thesis
    using no_time_element_dropped [of no_time_block "[]"] t l
    by (simp add: sample_defs)
qed



section \<open>The code tables\<close>

lemma first_code_range: "first_code P dmap ls = Some c \<Longrightarrow> c \<in> set (map snd dmap)"
  by (auto simp: first_code_def split: list.splits dest!: map_of_SomeD intro: rev_image_eqI)

lemma first_match_range: "first_match syms dmap d ls \<in> insert d (set (map snd dmap))"
  using first_code_range [of "\<lambda>l. l \<notin> set syms" dmap ls]
  by (auto simp: first_match_def split: option.splits)

lemma destination_nm_range:
  "destination_nm ls \<in> insert (lit ''f'') (set (map snd destination_map_nm))"
  using first_code_range [of is_name_nm destination_map_nm "rev ls"]
    first_code_range [of is_track destination_map_nm "rev ls"]
  by (auto simp: destination_nm_eq split: option.splits)

lemma tables_closed:
  "set (map snd destination_map_ks) \<union> {lit ''j''} \<subseteq> set (map fst destination_definitions_ks)"
  "set (map snd destination_map_nm) \<union> {lit ''f'', lit ''g''}
     \<subseteq> set (map fst destination_definitions_nm)"
  "set (map snd destination_map_br) \<union> {lit ''j''} \<subseteq> set (map fst destination_definitions_br)"
  by (simp_all add: table_defs destination_definitions_ks_def destination_definitions_nm_def
      destination_definitions_br_def lit_simps)

text \<open>
  C8. In each converter the codes of \<^verbatim>\<open>destination_definitions\<close> include every value of
  \<^verbatim>\<open>destination_map\<close>, the default destination and, in the Nishimagome main-line
  converter, the track codes \<open>f\<close> and \<open>g\<close>; so the destination of every trip a
  converter builds has a definition line.
\<close>

theorem destination_codes_defined:
  "set (map snd destination_map_ks) \<union> {lit ''j''} \<subseteq> set (map fst destination_definitions_ks)
   \<and> set (map snd destination_map_nm) \<union> {lit ''f'', lit ''g''}
       \<subseteq> set (map fst destination_definitions_nm)
   \<and> set (map snd destination_map_br) \<union> {lit ''j''} \<subseteq> set (map fst destination_definitions_br)
   \<and> (classify_ks classes legends time_elem = Some t \<longrightarrow>
        trip_destination t \<in> set (map fst destination_definitions_ks))
   \<and> (classify_nm color_class legends time_elem = Some t \<longrightarrow>
        trip_destination t \<in> set (map fst destination_definitions_nm))
   \<and> (classify_br classes legends time_elem = Some t \<longrightarrow>
        trip_destination t \<in> set (map fst destination_definitions_br))"
proof -
  have "trip_destination t \<in> set (map fst destination_definitions_ks)"
    if c: "classify_ks classes legends time_elem = Some t"
  proof -
    have "trip_destination t \<in> insert (lit ''j'') (set (map snd destination_map_ks))"
      using first_match_range [of train_type_symbols_ks destination_map_ks "lit ''j''" legends]
      by (simp only: classify_ks_Some(1) [OF c] scan_destination_first_match)
    then show ?thesis using tables_closed(1) by blast
  qed
  moreover have "trip_destination t \<in> set (map fst destination_definitions_nm)"
    if c: "classify_nm color_class legends time_elem = Some t"
  proof -
    have "trip_destination t \<in> insert (lit ''f'') (set (map snd destination_map_nm))"
      using destination_nm_range [of legends] by (simp only: classify_nm_Some(1) [OF c])
    then show ?thesis using tables_closed(2) by blast
  qed
  moreover have "trip_destination t \<in> set (map fst destination_definitions_br)"
    if c: "classify_br classes legends time_elem = Some t"
  proof -
    have "trip_destination t \<in> insert (lit ''j'') (set (map snd destination_map_br))"
      using first_match_range [of train_type_symbols_br destination_map_br "lit ''j''" legends]
      by (simp only: classify_br_Some(1) [OF c] scan_destination_first_match)
    then show ?thesis using tables_closed(3) by blast
  qed
  ultimately show ?thesis using tables_closed by blast
qed

theorem destination_codes_defined_witness:
  "map_option trip_destination
     (classify_ks [lit ''wrapTime''] [[0x25CF]] (Some (lit ''07''))) = Some (lit ''j'')
   \<and> lit ''j'' \<in> set (map fst destination_definitions_ks)
   \<and> map_option trip_destination
       (classify_nm (lit ''wrapTime'') [g_track2] (Some (lit ''07''))) = Some (lit ''g'')
   \<and> lit ''g'' \<in> set (map fst destination_definitions_nm)
   \<and> map_option trip_destination
       (classify_br [lit ''wrapTime''] [[0x7A7A]] (Some (lit ''07''))) = Some (lit ''h'')
   \<and> lit ''h'' \<in> set (map fst destination_definitions_br)"
proof -
  obtain t where t: "classify_ks [lit ''wrapTime''] [[0x25CF]] (Some (lit ''07'')) = Some t"
    and dt: "trip_destination t = lit ''j''"
    by (simp add: classify_defs glyph_defs table_defs lit_def)
  obtain u where u: "classify_nm (lit ''wrapTime'') [g_track2] (Some (lit ''07'')) = Some u"
    and du: "trip_destination u = lit ''g''"
    by (simp add: classify_defs glyph_defs table_defs lit_def)
  obtain v where v: "classify_br [lit ''wrapTime''] [[0x7A7A]] (Some (lit ''07'')) = Some v"
    and dv: "trip_destination v = lit ''h''"
    by (simp add: classify_defs glyph_defs table_defs lit_def)
  show ?thesis
    using destination_codes_defined [of "[lit ''wrapTime'']" "[[0x25CF]]" "Some (lit ''07'')" t]
      destination_codes_defined [of _ "[g_track2]" "Some (lit ''07'')" u "lit ''wrapTime''"]
      destination_codes_defined [of "[lit ''wrapTime'']" "[[0x7A7A]]" "Some (lit ''07'')" v]
      t u v dt du dv
    by simp
qed

section \<open>The station header\<close>

text \<open>On the sample page, where both active tabs hold an anchor, the header is read.\<close>

lemma sample_station_info:
  "extract_station_info sample_soup =
     Inr \<lparr>info_name = [0x6D45, 0x8349],
          info_direction = [0x62BC, 0x4E0A, 0x30FB, 0x4EAC, 0x6210, 0x7DDA, 0x30FB, 0x5317, 0x7DCF, 0x7DDA],
          info_day_type = lit ''weekday''\<rparr>"
  apply (simp add: extract_station_info_def anchor_text_def bs_defs sample_soup_def lit_simps
      Let_def)
  apply (simp add: day_type_of_def strip_def isspace_def)
  done

text \<open>
  C6. Extraction never raises on a page that lacks an element. This fails for the
  station header: every other lookup of the converter is tested against \<^verbatim>\<open>None\<close>, but
  the anchor of the active direction tab (and of the active day tab) is not, and on a
  page whose active direction tab has no anchor \<^verbatim>\<open>extract_station_info\<close> raises
  \<^verbatim>\<open>AttributeError\<close>, and with it \<^verbatim>\<open>parse_html\<close>.
\<close>

theorem missing_anchor_raises:
  "extract_station_info no_anchor_soup = Inl AttributeError
   \<and> parse_html_ks no_anchor_soup = Inl AttributeError"
proof -
  have "extract_station_info no_anchor_soup = Inl AttributeError"
    by (simp add: extract_station_info_def anchor_text_def bs_defs no_anchor_soup_def
        lit_simps Let_def)
  then show ?thesis by (simp add: parse_html_ks_def)
qed



section \<open>The serializer\<close>

subsection \<open>Hour labels\<close>











subsection \<open>The layout of the output\<close>



















end
